theory Spec2Isabelle
  imports Main
begin

unbundle bit_operations_syntax

section \<open>Values shared by the modules\<close>

text \<open>
  Python's integers are unbounded, so every integer of the source is an \<open>int\<close>; the
  shifts \<open><<\<close> and \<open>>>\<close> are \<open>push_bit\<close> and \<open>drop_bit\<close>, and \<open>&\<close>, \<open>|\<close> are
  \<open>AND\<close>, \<open>OR\<close> (two's complement on negative numbers, as in Python).

  An f-string is kept as the list of its pieces: the literal text, the interpolated
  integers, and the degree sign (the one character of these messages outside ASCII).
  An exception is a value: \<open>ValueError\<close> carries its message, \<open>KeyError\<close> the key.
\<close>

datatype piece = Lit string | Num int | Deg

type_synonym fstring = "piece list"

datatype error = ValueError fstring | KeyError string

section \<open>scs_protocol.py: enumerations\<close>

datatype SystemState = IDLE | CAL | MAZE | SOS

datatype SubsystemID = HUB | SNC | MDPS | SS

datatype SensorColor = WHITE | RED | GREEN | BLUE | BLACK

fun SystemState_value :: "SystemState \<Rightarrow> int" where
  "SystemState_value IDLE = 0"
| "SystemState_value CAL = 1"
| "SystemState_value MAZE = 2"
| "SystemState_value SOS = 3"

fun SubsystemID_value :: "SubsystemID \<Rightarrow> int" where
  "SubsystemID_value HUB = 0"
| "SubsystemID_value SNC = 1"
| "SubsystemID_value MDPS = 2"
| "SubsystemID_value SS = 3"

text \<open>
  \<open>SystemState(v)\<close> and \<open>SubsystemID(v)\<close>: the enum member with that value, and a
  \<open>ValueError\<close> when there is none.
\<close>

definition SystemState_of :: "int \<Rightarrow> error + SystemState" where
  "SystemState_of v =
     (if v = 0 then Inr IDLE
      else if v = 1 then Inr CAL
      else if v = 2 then Inr MAZE
      else if v = 3 then Inr SOS
      else Inl (ValueError [Num v, Lit '' is not a valid SystemState'']))"

definition SubsystemID_of :: "int \<Rightarrow> error + SubsystemID" where
  "SubsystemID_of v =
     (if v = 0 then Inr HUB
      else if v = 1 then Inr SNC
      else if v = 2 then Inr MDPS
      else if v = 3 then Inr SS
      else Inl (ValueError [Num v, Lit '' is not a valid SubsystemID'']))"

section \<open>scs_protocol.py: the packet\<close>

record SCSPacket =
  control :: int
  dat1 :: int
  dat0 :: int
  dec :: int

text \<open>
  \<open>__post_init__\<close> checks the four fields in the order control, dat1, dat0, dec and
  raises at the first one outside 0..255.
\<close>

fun post_init :: "(string \<times> int) list \<Rightarrow> error option" where
  "post_init [] = None"
| "post_init ((field, v) # rest) =
     (if \<not> (0 \<le> v \<and> v \<le> 255)
      then Some (ValueError [Lit field, Lit '' must be 0-255, got '', Num v])
      else post_init rest)"

definition SCSPacket_init :: "int \<Rightarrow> int \<Rightarrow> int \<Rightarrow> int \<Rightarrow> error + SCSPacket" where
  "SCSPacket_init c d1 d0 de =
     (case post_init [(''control'', c), (''dat1'', d1), (''dat0'', d0), (''dec'', de)] of
        Some e \<Rightarrow> Inl e
      | None \<Rightarrow> Inr \<lparr>control = c, dat1 = d1, dat0 = d0, dec = de\<rparr>)"

text \<open>
  Python's \<open>bytes([...])\<close> raises a \<open>ValueError\<close> for an element outside
  \<open>range(256)\<close>; a byte string is the list of its values.
\<close>

definition bytes :: "int list \<Rightarrow> error + int list" where
  "bytes xs =
     (if list_all (\<lambda>v. 0 \<le> v \<and> v < 256) xs then Inr xs
      else Inl (ValueError [Lit ''bytes must be in range(0, 256)'']))"

definition to_bytes :: "SCSPacket \<Rightarrow> error + int list" where
  "to_bytes p = bytes [control p, dat1 p, dat0 p, dec p]"

definition from_bytes :: "int list \<Rightarrow> error + SCSPacket" where
  "from_bytes data =
     (if length data \<noteq> 4
      then Inl (ValueError [Lit ''Packet must be 4 bytes, got '', Num (int (length data))])
      else SCSPacket_init (data ! 0) (data ! 1) (data ! 2) (data ! 3))"


definition get_subsystem :: "SCSPacket \<Rightarrow> error + SubsystemID" where
  "get_subsystem p = SubsystemID_of (drop_bit 4 (control p) AND 3)"

definition get_ist :: "SCSPacket \<Rightarrow> int" where
  "get_ist p = control p AND 15"

section \<open>scs_protocol.py: the control byte\<close>

definition create_control_byte :: "SystemState \<Rightarrow> SubsystemID \<Rightarrow> int \<Rightarrow> error + int" where
  "create_control_byte sys_state subsystem ist =
     (if \<not> (0 \<le> ist \<and> ist \<le> 15)
      then Inl (ValueError [Lit ''IST must be 0-15, got '', Num ist])
      else Inr (push_bit 6 (SystemState_value sys_state)
                OR push_bit 4 (SubsystemID_value subsystem)
                OR (ist AND 15)))"

definition parse_control_byte :: "int \<Rightarrow> error + (SystemState \<times> SubsystemID \<times> int)" where
  "parse_control_byte c =
     (case SystemState_of (drop_bit 6 c AND 3) of
        Inl e \<Rightarrow> Inl e
      | Inr sys_state \<Rightarrow>
          (case SubsystemID_of (drop_bit 4 c AND 3) of
             Inl e \<Rightarrow> Inl e
           | Inr subsystem \<Rightarrow> Inr (sys_state, subsystem, c AND 15)))"

text \<open>
  The packet constructors of the module (\<open>make_maze_mdps_packet\<close> and its siblings)
  all build a packet in the same two steps, \<open>create_control_byte\<close> and then the
  \<open>SCSPacket\<close> constructor; the senders then call \<open>to_bytes\<close>. \<open>encode\<close> is that
  sequence with the state and the subsystem left open. \<open>decode\<close> is the receiving
  side: \<open>from_bytes\<close>, then \<open>parse_control_byte\<close> on the control byte, as the
  monitors of the test windows do.
\<close>

definition make_packet ::
  "SystemState \<Rightarrow> SubsystemID \<Rightarrow> int \<Rightarrow> int \<Rightarrow> int \<Rightarrow> int \<Rightarrow> error + SCSPacket" where
  "make_packet sys_state subsystem ist d1 d0 de =
     (case create_control_byte sys_state subsystem ist of
        Inl e \<Rightarrow> Inl e
      | Inr ctrl \<Rightarrow> SCSPacket_init ctrl d1 d0 de)"

definition make_maze_mdps_packet :: "int \<Rightarrow> int \<Rightarrow> int \<Rightarrow> int \<Rightarrow> error + SCSPacket" where
  "make_maze_mdps_packet ist d1 d0 de = make_packet MAZE MDPS ist d1 d0 de"

definition encode ::
  "SystemState \<Rightarrow> SubsystemID \<Rightarrow> int \<Rightarrow> int \<Rightarrow> int \<Rightarrow> int \<Rightarrow> error + int list" where
  "encode sys_state subsystem ist d1 d0 de =
     (case make_packet sys_state subsystem ist d1 d0 de of
        Inl e \<Rightarrow> Inl e
      | Inr p \<Rightarrow> to_bytes p)"

definition decode ::
  "int list \<Rightarrow> error + (SystemState \<times> SubsystemID \<times> int \<times> int \<times> int \<times> int)" where
  "decode data =
     (case from_bytes data of
        Inl e \<Rightarrow> Inl e
      | Inr p \<Rightarrow>
          (case parse_control_byte (control p) of
             Inl e \<Rightarrow> Inl e
           | Inr (sys_state, subsystem, ist) \<Rightarrow>
               Inr (sys_state, subsystem, ist, dat1 p, dat0 p, dec p)))"

section \<open>scs_protocol.py: colour bytes\<close>

text \<open>
  \<open>d.get(k, default)\<close> on a dictionary: the stored value, or the default when the
  key is missing. The dictionary is not changed.
\<close>

definition dict_get :: "('k \<rightharpoonup> 'v) \<Rightarrow> 'k \<Rightarrow> 'v \<Rightarrow> 'v" where
  "dict_get d k dflt = (case d k of None \<Rightarrow> dflt | Some v \<Rightarrow> v)"

fun color_bits :: "SensorColor \<Rightarrow> int" where
  "color_bits WHITE = 0"
| "color_bits RED = 1"
| "color_bits GREEN = 2"
| "color_bits BLUE = 3"
| "color_bits BLACK = 4"

definition encode_color_byte :: "SensorColor \<Rightarrow> SensorColor \<Rightarrow> SensorColor \<Rightarrow> int" where
  "encode_color_byte s1 s2 s3 =
     (let s1_bits = color_bits s1 AND 3;
          s2_bits = color_bits s2 AND 3;
          s3_bits = color_bits s3 AND 3
      in push_bit 6 s3_bits OR push_bit 3 s2_bits OR s1_bits)"

definition bits_to_color :: "int \<rightharpoonup> SensorColor" where
  "bits_to_color = map_of [(0, WHITE), (1, RED), (2, GREEN), (3, BLUE), (4, BLACK)]"

definition decode_color_byte :: "int \<Rightarrow> SensorColor \<times> SensorColor \<times> SensorColor" where
  "decode_color_byte color_byte =
     (let s1_bits = color_byte AND 3;
          s2_bits = drop_bit 3 color_byte AND 3;
          s3_bits = drop_bit 6 color_byte AND 3;
          s1 = dict_get bits_to_color s1_bits WHITE;
          s2 = dict_get bits_to_color s2_bits WHITE;
          s3 = dict_get bits_to_color s3_bits WHITE
      in (s1, s2, s3))"

text \<open>The predefined colour patterns of the module, computed as the module computes them.\<close>

definition COLOR_ALL_WHITE :: int where "COLOR_ALL_WHITE = 0"
definition COLOR_S2_GREEN :: int where "COLOR_S2_GREEN = encode_color_byte WHITE GREEN WHITE"
definition COLOR_S2_RED :: int where "COLOR_S2_RED = encode_color_byte WHITE RED WHITE"
definition COLOR_S2_BLUE :: int where "COLOR_S2_BLUE = encode_color_byte WHITE BLUE WHITE"
definition COLOR_S2_BLACK :: int where "COLOR_S2_BLACK = encode_color_byte WHITE BLACK WHITE"
definition COLOR_S1_GREEN :: int where "COLOR_S1_GREEN = encode_color_byte GREEN WHITE WHITE"
definition COLOR_S3_GREEN :: int where "COLOR_S3_GREEN = encode_color_byte WHITE WHITE GREEN"
definition COLOR_ALL_RED :: int where "COLOR_ALL_RED = 73"

section \<open>scs_protocol.py: the transition validator\<close>

text \<open>
  \<open>conditions_met\<close> is a dictionary from condition names to truth values; a missing
  name reads as \<open>False\<close>. The function only reads it and returns a truth value.
\<close>

definition is_valid_transition ::
  "SystemState \<Rightarrow> SystemState \<Rightarrow> (string \<rightharpoonup> bool) \<Rightarrow> bool" where
  "is_valid_transition current_state next_state conditions_met =
     (if current_state = IDLE \<and> next_state = CAL
      then dict_get conditions_met ''touch_sensor'' False
      else if current_state = CAL \<and> next_state = MAZE
      then dict_get conditions_met ''ss_eoc'' False \<and> dict_get conditions_met ''mdps_eoc'' False
      else if (current_state = MAZE \<and> next_state = SOS) \<or>
              (current_state = SOS \<and> next_state = MAZE)
      then dict_get conditions_met ''pure_tone'' False
      else if current_state = MAZE \<and> next_state = IDLE
      then dict_get conditions_met ''end_of_maze'' False
      else False)"

section \<open>scs_protocol.py: describing a colour packet\<close>

text \<open>
  \<open>SCSPacket._decode_color_packet\<close>: the description of a colour packet. The two
  whole-byte patterns are tested first; otherwise the sensors that report a colour
  are listed, joined by a comma. \<open>color_map.get(s, str(s))\<close> is the colour's name, or
  the number itself when the map has no entry.
\<close>

definition color_map :: "int \<rightharpoonup> string" where
  "color_map =
     map_of [(0, ''WHITE''), (1, ''RED''), (2, ''GREEN''), (3, ''BLUE''), (4, ''BLACK'')]"

definition color_name :: "int \<Rightarrow> piece" where
  "color_name s = (case color_map s of None \<Rightarrow> Num s | Some n \<Rightarrow> Lit n)"

fun join_fstrings :: "fstring \<Rightarrow> fstring list \<Rightarrow> fstring" where
  "join_fstrings sep [] = []"
| "join_fstrings sep [x] = x"
| "join_fstrings sep (x # y # ys) = x @ sep @ join_fstrings sep (y # ys)"

definition decode_color_packet :: "SCSPacket \<Rightarrow> fstring" where
  "decode_color_packet p =
     (let color_val = dat0 p in
      if color_val = 0 then [Lit ''All WHITE'']
      else if color_val = 73 then [Lit ''All RED (End-of-Maze)'']
      else
        let s1 = color_val AND 3;
            s2 = drop_bit 3 color_val AND 3;
            s3 = drop_bit 6 color_val AND 3;
            found =
              (if s1 \<in> set [2, 3, 4] then [[Lit ''S1='', color_name s1]] else []) @
              (if s2 \<in> set [1, 2, 3, 4] then [[Lit ''S2='', color_name s2]] else []) @
              (if s3 \<in> set [2, 3, 4] then [[Lit ''S3='', color_name s3]] else [])
        in if found \<noteq> [] then join_fstrings [Lit '', ''] found
           else [Lit ''Color code: '', Num color_val])"

section \<open>test_navcon_decisions.py: the expected behaviour\<close>

text \<open>Python's \<open>sub in s\<close> on strings: \<open>sub\<close> occurs in \<open>s\<close> as a contiguous run.\<close>

fun str_startswith :: "string \<Rightarrow> string \<Rightarrow> bool" where
  "str_startswith [] s = True"
| "str_startswith (p # ps) [] = False"
| "str_startswith (p # ps) (c # cs) = (p = c \<and> str_startswith ps cs)"

fun str_contains :: "string \<Rightarrow> string \<Rightarrow> bool" where
  "str_contains sub [] = (sub = [])"
| "str_contains sub (c # cs) = (str_startswith sub (c # cs) \<or> str_contains sub cs)"

text \<open>The two tables of \<open>NAVCONDecisionTester.__init__\<close>, in the order they are written.\<close>

definition angle_categories :: "(string \<times> int list) list" where
  "angle_categories =
     [(''straight'', [0, 1, 2, 5]),
      (''alignment'', [6, 10, 20, 30, 45]),
      (''steep'', [46, 50, 60, 75, 90])]"

definition colors :: "(string \<times> int \<times> string) list" where
  "colors =
     [(''WHITE'', COLOR_ALL_WHITE, ''Navigable surface''),
      (''S2_RED'', COLOR_S2_RED, ''RED line (navigable, end-of-path marker)''),
      (''S2_GREEN'', COLOR_S2_GREEN, ''GREEN line (navigable, intersection)''),
      (''S2_BLUE'', COLOR_S2_BLUE, ''BLUE wall (obstacle, must avoid)''),
      (''S2_BLACK'', COLOR_S2_BLACK, ''BLACK wall (obstacle, must avoid)''),
      (''S1_GREEN'', COLOR_S1_GREEN, ''GREEN on left edge''),
      (''S3_GREEN'', COLOR_S3_GREEN, ''GREEN on right edge''),
      (''ALL_RED'', COLOR_ALL_RED, ''All RED (end-of-maze)'')]"

text \<open>
  \<open>get_expected_behavior\<close> first reads \<open>self.colors[color_key]\<close>, which raises
  \<open>KeyError\<close> for a key that is not in the table, and then decides on the key and
  the angle. The angle is compared as it is given.
\<close>

definition get_expected_behavior :: "int \<Rightarrow> string \<Rightarrow> error + fstring" where
  "get_expected_behavior angle color_key =
     (case map_of colors color_key of
        None \<Rightarrow> Inl (KeyError color_key)
      | Some (color_code, description) \<Rightarrow>
          if str_contains ''BLUE'' color_key \<or> str_contains ''BLACK'' color_key
          then Inr [Lit ''AVOID - Rotate away from obstacle'']
          else if color_key = ''ALL_RED''
          then Inr [Lit ''STOP - End-of-maze detected'']
          else if angle \<le> 5
          then Inr [Lit ''FORWARD - Direct crossing at '', Num angle, Deg]
          else if angle \<le> 45
          then Inr [Lit ''ALIGN - Incremental correction for '', Num angle, Deg]
          else Inr [Lit ''ROTATE - Major rotation for '', Num angle, Deg])"

section \<open>NaVCON_Tester.py: packets to and from the navigation controller\<close>

text \<open>
  The testers of \<open>Phase 1/NAVCON\<close> declare their own \<open>SCSPacket\<close>, a plain dataclass
  of the same four fields with no range check, and their own enumerations with the
  same values under the names \<open>SYS_...\<close> and \<open>SUB_...\<close>. A packet of theirs is the
  record itself; \<open>subsystem_id\<close> and \<open>internal_state\<close> compute what \<open>get_subsystem\<close>
  and \<open>get_ist\<close> compute.
\<close>

datatype NAVCONAction_tester =
    ACT_STOP | ACT_FORWARD | ACT_BACKWARD | ACT_TURN_LEFT | ACT_TURN_RIGHT
  | ACT_TURN_180_LEFT | ACT_TURN_180_RIGHT | ACT_TURN_360_LEFT
  | ACT_DIFFERENTIAL_STEER | ACT_WALL_FOLLOW_TURN | ACT_STEERING_CORRECTION
  | ACT_ERROR_STOP



definition decode_navcon_response :: "SCSPacket \<Rightarrow> error + (NAVCONAction_tester \<times> fstring)" where
  "decode_navcon_response packet =
     (case get_subsystem packet of
        Inl e \<Rightarrow> Inl e
      | Inr subsystem_id \<Rightarrow> Inr (
          if subsystem_id \<noteq> SNC \<or> get_ist packet \<noteq> 3
          then (ACT_ERROR_STOP, [Lit ''Invalid NAVCON packet format''])
          else if dec packet = 0
          then (if dat1 packet = 0 \<and> dat0 packet = 0
                then (ACT_STOP, [Lit ''Stop''])
                else (ACT_FORWARD,
                      [Lit ''Forward L='', Num (dat0 packet), Lit '' R='', Num (dat1 packet)]))
          else if dec packet = 1
          then (ACT_BACKWARD,
                [Lit ''Backward L='', Num (dat0 packet), Lit '' R='', Num (dat1 packet)])
          else if dec packet = 2
          then (let rotation = push_bit 8 (dat1 packet) OR dat0 packet in
                if rotation = 180 then (ACT_TURN_180_LEFT, [Lit ''180'', Deg, Lit '' Left Turn''])
                else if rotation = 360
                then (ACT_TURN_360_LEFT, [Lit ''360'', Deg, Lit '' Left Turn''])
                else if rotation \<le> 10
                then (ACT_STEERING_CORRECTION,
                      [Lit ''Steering Correction '', Num rotation, Deg, Lit '' Left''])
                else (ACT_TURN_LEFT, [Num rotation, Deg, Lit '' Left Turn'']))
          else if dec packet = 3
          then (let rotation = push_bit 8 (dat1 packet) OR dat0 packet in
                if rotation = 180
                then (ACT_TURN_180_RIGHT, [Lit ''180'', Deg, Lit '' Right Turn''])
                else if rotation \<le> 10
                then (ACT_STEERING_CORRECTION,
                      [Lit ''Steering Correction '', Num rotation, Deg, Lit '' Right''])
                else (ACT_TURN_RIGHT, [Num rotation, Deg, Lit '' Right Turn'']))
          else (ACT_ERROR_STOP, [Lit ''Unknown dec='', Num (dec packet)])))"








section \<open>Navcon_state.py: decoding the decision packet\<close>

datatype NAVCONAction_state =
    FORWARD | BACKWARD | ROTATE_L | ROTATE_R | STOP | STEER | L180 | R180 | L360 | ERROR

definition SimpleTester_decode :: "SCSPacket \<Rightarrow> NAVCONAction_state \<times> fstring" where
  "SimpleTester_decode pkt =
     (let d = dec pkt in
      if d = 0 then (FORWARD, [Lit ''Forward R='', Num (dat1 pkt), Lit '' L='', Num (dat0 pkt)])
      else if d = 1
      then (BACKWARD, [Lit ''Backward R='', Num (dat1 pkt), Lit '' L='', Num (dat0 pkt)])
      else if d = 2
      then (let ang = push_bit 8 (dat1 pkt) OR dat0 pkt in
            if ang = 180 then (L180, [Lit ''Left 180'', Deg])
            else if ang = 360 then (L360, [Lit ''Left 360'', Deg])
            else if ang \<le> 10 then (STEER, [Lit ''Left steer '', Num ang, Deg])
            else (ROTATE_L, [Lit ''Left '', Num ang, Deg]))
      else if d = 3
      then (let ang = push_bit 8 (dat1 pkt) OR dat0 pkt in
            if ang = 180 then (R180, [Lit ''Right 180'', Deg])
            else if ang \<le> 10 then (STEER, [Lit ''Right steer '', Num ang, Deg])
            else (ROTATE_R, [Lit ''Right '', Num ang, Deg]))
      else if d = 4 then (STOP, [Lit ''Stop''])
      else (ERROR, [Lit ''Unknown DEC='', Num d]))"

section \<open>The angle classifier for signed angles\<close>




section \<open>The pure-tone dual-detection validator\<close>

text \<open>
  Modelled from the spec: the pure-tone dual-detection validator (the two-slot state
  machine of the design's section on tone detection). The sources hold the test
  window that plays and draws the tone timelines; the validator that consumes the
  tone events runs on the peer and is not among them.

  A tone event carries its start time and its duration in milliseconds; it is
  handled when the tone ends, at \<open>start_time + duration_ms\<close>. A first tone of 500 to
  1000 ms is stored with a deadline 2000 ms after its end. A tone that ends after
  the deadline is handled as a fresh first tone; a tone of 500 to 1000 ms that ends
  in time is accepted, which toggles MAZE and SOS and clears the stored tone; any
  other tone in time leaves the stored tone and its deadline as they are.
\<close>

record ToneEvent =
  start_time :: int
  duration_ms :: int

datatype tone_phase = WAITING_FIRST | WAITING_SECOND int

record tone_validator =
  phase :: tone_phase
  system :: SystemState
  accepted :: nat

definition tone_end :: "ToneEvent \<Rightarrow> int" where
  "tone_end ev = start_time ev + duration_ms ev"

definition valid_duration :: "ToneEvent \<Rightarrow> bool" where
  "valid_duration ev = (500 \<le> duration_ms ev \<and> duration_ms ev \<le> 1000)"

fun toggle :: "SystemState \<Rightarrow> SystemState" where
  "toggle MAZE = SOS"
| "toggle SOS = MAZE"
| "toggle s = s"

definition first_tone :: "tone_validator \<Rightarrow> ToneEvent \<Rightarrow> tone_validator" where
  "first_tone v ev =
     (if valid_duration ev then v\<lparr>phase := WAITING_SECOND (tone_end ev + 2000)\<rparr>
      else v\<lparr>phase := WAITING_FIRST\<rparr>)"

definition on_tone_end :: "tone_validator \<Rightarrow> ToneEvent \<Rightarrow> tone_validator" where
  "on_tone_end v ev =
     (case phase v of
        WAITING_FIRST \<Rightarrow> first_tone v ev
      | WAITING_SECOND deadline \<Rightarrow>
          if tone_end ev > deadline then first_tone v ev
          else if valid_duration ev
          then v\<lparr>phase := WAITING_FIRST, system := toggle (system v),
                 accepted := Suc (accepted v)\<rparr>
          else v)"

definition tone_start :: "SystemState \<Rightarrow> tone_validator" where
  "tone_start s = \<lparr>phase = WAITING_FIRST, system = s, accepted = 0\<rparr>"

definition run_tones :: "tone_validator \<Rightarrow> ToneEvent list \<Rightarrow> tone_validator" where
  "run_tones v evs = foldl on_tone_end v evs"

text \<open>
  Two notions for reasoning about streams of tones: a stream is \<open>isolated\<close> when
  every tone ends more than 2000 ms after the one before it ended, and a validator
  has \<open>expired\<close> for a tone when it stores no first tone whose deadline that tone
  still meets.
\<close>

fun isolated :: "ToneEvent list \<Rightarrow> bool" where
  "isolated [] = True"
| "isolated [e] = True"
| "isolated (e # e' # es) = (tone_end e + 2000 < tone_end e' \<and> isolated (e' # es))"

definition expired :: "tone_validator \<Rightarrow> ToneEvent \<Rightarrow> bool" where
  "expired v ev =
     (case phase v of WAITING_FIRST \<Rightarrow> True | WAITING_SECOND d \<Rightarrow> d < tone_end ev)"

section \<open>Facts about the bit fields\<close>

lemma and3_range: "0 \<le> (x::int) AND 3 \<and> x AND 3 \<le> 3"
  by (simp add: AND_upper2)

lemma and3_cases: "(x::int) AND 3 = 0 \<or> x AND 3 = 1 \<or> x AND 3 = 2 \<or> x AND 3 = 3"
  using and3_range [of x] by arith

lemma nibble_and15:
  assumes "0 \<le> (i::int)" "i \<le> 15"
  shows "i AND 15 = i"
proof -
  have "take_bit 4 i = i"
    using assms by (simp add: take_bit_int_eq_self)
  then show ?thesis
    by (simp add: take_bit_eq_mask mask_numeral)
qed

lemma nibble_drop:
  assumes "0 \<le> (i::int)" "i \<le> 15"
  shows "drop_bit 4 i = 0" "drop_bit 6 i = 0"
  using assms by (simp_all add: drop_bit_eq_div)

lemma byte_or:
  assumes "0 \<le> (a::int)" "a \<le> 255" "0 \<le> b" "b \<le> 255"
  shows "a OR b \<le> 255"
proof -
  have "a OR b < 2 ^ 8"
    using assms by (intro OR_upper) simp_all
  then show ?thesis by simp
qed

text \<open>
  The control byte of an instruction code in range is a byte, and each of its three
  fields reads back what was put in.
\<close>

lemma control_byte_parse:
  assumes "0 \<le> ist" "ist \<le> 15"
  shows "\<exists>c. create_control_byte s sub ist = Inr c \<and> 0 \<le> c \<and> c \<le> 255 \<and>
             parse_control_byte c = Inr (s, sub, ist) \<and>
             SystemState_of (drop_bit 6 c AND 3) = Inr s \<and>
             SubsystemID_of (drop_bit 4 c AND 3) = Inr sub \<and> c AND 15 = ist"
  using assms
  by (cases s; cases sub)
    (simp_all add: create_control_byte_def parse_control_byte_def
       SystemState_of_def SubsystemID_of_def nibble_and15 nibble_drop
       bit.conj_disj_distrib2 byte_or)

text \<open>The constructor's loop over the four fields, written out.\<close>

lemma SCSPacket_init_cases:
  "SCSPacket_init c d1 d0 de =
     (if 0 \<le> c \<and> c \<le> 255 \<and> 0 \<le> d1 \<and> d1 \<le> 255 \<and> 0 \<le> d0 \<and> d0 \<le> 255 \<and>
         0 \<le> de \<and> de \<le> 255
      then Inr \<lparr>control = c, dat1 = d1, dat0 = d0, dec = de\<rparr>
      else Inl (ValueError
        (if \<not> (0 \<le> c \<and> c \<le> 255)
         then [Lit ''control'', Lit '' must be 0-255, got '', Num c]
         else if \<not> (0 \<le> d1 \<and> d1 \<le> 255)
         then [Lit ''dat1'', Lit '' must be 0-255, got '', Num d1]
         else if \<not> (0 \<le> d0 \<and> d0 \<le> 255)
         then [Lit ''dat0'', Lit '' must be 0-255, got '', Num d0]
         else [Lit ''dec'', Lit '' must be 0-255, got '', Num de])))"
  by (simp add: SCSPacket_init_def)

lemma make_packet_cases:
  "make_packet s sub ist d1 d0 de =
     (if 0 \<le> ist \<and> ist \<le> 15
      then (case create_control_byte s sub ist of
              Inl e \<Rightarrow> Inl e
            | Inr c \<Rightarrow>
               (if 0 \<le> d1 \<and> d1 \<le> 255 \<and> 0 \<le> d0 \<and> d0 \<le> 255 \<and> 0 \<le> de \<and> de \<le> 255
                then Inr \<lparr>control = c, dat1 = d1, dat0 = d0, dec = de\<rparr>
                else Inl (ValueError
                  (if \<not> (0 \<le> d1 \<and> d1 \<le> 255)
                   then [Lit ''dat1'', Lit '' must be 0-255, got '', Num d1]
                   else if \<not> (0 \<le> d0 \<and> d0 \<le> 255)
                   then [Lit ''dat0'', Lit '' must be 0-255, got '', Num d0]
                   else [Lit ''dec'', Lit '' must be 0-255, got '', Num de]))))
      else Inl (ValueError [Lit ''IST must be 0-15, got '', Num ist]))"
proof (cases "0 \<le> ist \<and> ist \<le> 15")
  case True
  with control_byte_parse [of ist s sub]
  obtain c where c: "create_control_byte s sub ist = Inr c" "0 \<le> c" "c \<le> 255"
    by blast
  with True show ?thesis
    by (simp add: make_packet_def SCSPacket_init_cases)
next
  case False
  then show ?thesis
    by (auto simp add: make_packet_def create_control_byte_def)
qed

lemma two_bit_color:
  "dict_get bits_to_color ((x::int) AND 3) WHITE \<in> {WHITE, RED, GREEN, BLUE}"
  using and3_cases [of x] by (auto simp add: dict_get_def bits_to_color_def)

section \<open>Facts about the expected behaviour\<close>

lemmas color_consts =
  COLOR_ALL_WHITE_def COLOR_S2_GREEN_def COLOR_S2_RED_def COLOR_S2_BLUE_def
  COLOR_S2_BLACK_def COLOR_S1_GREEN_def COLOR_S3_GREEN_def COLOR_ALL_RED_def

text \<open>For the two keys of a navigable line on the centre sensor, only the angle decides.\<close>

lemma navigable_behavior:
  assumes "k = ''S2_RED'' \<or> k = ''S2_GREEN''"
  shows "get_expected_behavior angle k =
     Inr (if angle \<le> 5 then [Lit ''FORWARD - Direct crossing at '', Num angle, Deg]
          else if angle \<le> 45 then [Lit ''ALIGN - Incremental correction for '', Num angle, Deg]
          else [Lit ''ROTATE - Major rotation for '', Num angle, Deg])"
  using assms by (auto simp add: get_expected_behavior_def colors_def)

text \<open>Only one key of the colour table carries the colour code 73.\<close>

lemma all_red_key:
  assumes "map_of colors k = Some (73, d)"
  shows "k = ''ALL_RED''"
  using assms
  by (simp add: colors_def color_consts encode_color_byte_def split: if_splits)


section \<open>Facts about the angle packet\<close>



section \<open>Facts about the tone validator\<close>

text \<open>
  The timeline of the design: a tone of 800 ms ends at 0, and a tone of 900 ms that
  ends at 1900 is accepted and toggles MAZE to SOS; when it ends at 2500 instead it
  is too late, and is stored as a new first tone with its own deadline.
\<close>

lemma two_tones_accept:
  "run_tones (tone_start MAZE)
     [\<lparr>start_time = - 800, duration_ms = 800\<rparr>, \<lparr>start_time = 1000, duration_ms = 900\<rparr>] =
   \<lparr>phase = WAITING_FIRST, system = SOS, accepted = 1\<rparr>"
  by (simp add: run_tones_def tone_start_def on_tone_end_def first_tone_def
      valid_duration_def tone_end_def)

lemma late_tone_starts_over:
  "run_tones (tone_start MAZE)
     [\<lparr>start_time = - 800, duration_ms = 800\<rparr>, \<lparr>start_time = 1600, duration_ms = 900\<rparr>] =
   \<lparr>phase = WAITING_SECOND 4500, system = MAZE, accepted = 0\<rparr>"
  by (simp add: run_tones_def tone_start_def on_tone_end_def first_tone_def
      valid_duration_def tone_end_def)

text \<open>
  A tone that finds the validator expired is never accepted, and it leaves the
  validator expired for every tone that ends more than 2000 ms later.
\<close>

lemma on_tone_end_expired:
  assumes "expired v ev"
  shows "accepted (on_tone_end v ev) = accepted v"
    and "system (on_tone_end v ev) = system v"
    and "tone_end ev + 2000 < tone_end ev' \<Longrightarrow> expired (on_tone_end v ev) ev'"
  using assms
  by (auto simp add: expired_def on_tone_end_def first_tone_def split: tone_phase.splits)

lemma run_tones_Cons: "run_tones v (e # es) = run_tones (on_tone_end v e) es"
  by (simp add: run_tones_def)

lemma isolated_tones_never_accept:
  assumes "isolated (e # es)" and "expired v e"
  shows "accepted (run_tones v (e # es)) = accepted v \<and>
         system (run_tones v (e # es)) = system v"
  using assms
proof (induction es arbitrary: v e)
  case Nil
  then show ?case
    by (simp add: run_tones_def on_tone_end_expired)
next
  case (Cons e' es)
  from Cons.prems have gap: "tone_end e + 2000 < tone_end e'" and rest: "isolated (e' # es)"
    by simp_all
  from Cons.prems(2) gap have "expired (on_tone_end v e) e'"
    by (rule on_tone_end_expired(3))
  from Cons.IH [OF rest this] on_tone_end_expired(1,2) [OF Cons.prems(2)]
  show ?case
    by (simp add: run_tones_Cons)
qed

section \<open>Facts about the transition validator\<close>

text \<open>The four checks of the design's list, and a dictionary with no entry at all.\<close>

lemma transition_examples:
  "\<not> is_valid_transition IDLE CAL [''touch_sensor'' \<mapsto> False] \<and>
   is_valid_transition IDLE CAL [''touch_sensor'' \<mapsto> True] \<and>
   \<not> is_valid_transition CAL MAZE [''ss_eoc'' \<mapsto> True, ''mdps_eoc'' \<mapsto> False] \<and>
   is_valid_transition CAL MAZE [''ss_eoc'' \<mapsto> True, ''mdps_eoc'' \<mapsto> True] \<and>
   \<not> is_valid_transition IDLE CAL Map.empty"
  by (simp add: is_valid_transition_def dict_get_def)

section \<open>The packet codec\<close>

text \<open>
  Claim C1. For every system state and subsystem, every instruction code from 0 to
  15 and every three data bytes from 0 to 255, encoding succeeds with four bytes,
  and decoding these four bytes gives back the six fields that were encoded. In
  particular \<open>parse_control_byte\<close> of the control byte that \<open>create_control_byte\<close>
  built returns the state, the subsystem and the instruction code it was built from.
\<close>

theorem encode_decode_roundtrip:
  assumes "0 \<le> ist" "ist \<le> 15" "0 \<le> d1" "d1 \<le> 255" "0 \<le> d0" "d0 \<le> 255"
    "0 \<le> de" "de \<le> 255"
  shows "(\<exists>data. encode s sub ist d1 d0 de = Inr data \<and> length data = 4 \<and>
            decode data = Inr (s, sub, ist, d1, d0, de)) \<and>
         (\<exists>c. create_control_byte s sub ist = Inr c \<and>
            parse_control_byte c = Inr (s, sub, ist))"
proof -
  from control_byte_parse [OF assms(1,2), of s sub]
  obtain c where c: "create_control_byte s sub ist = Inr c" "0 \<le> c" "c \<le> 255"
    "parse_control_byte c = Inr (s, sub, ist)"
    by blast
  let ?p = "\<lparr>control = c, dat1 = d1, dat0 = d0, dec = de\<rparr>"
  have init: "SCSPacket_init c d1 d0 de = Inr ?p"
    using c(2,3) assms(3-8) by (simp add: SCSPacket_init_cases)
  have enc: "encode s sub ist d1 d0 de = Inr [c, d1, d0, de]"
    using c(1-3) assms(3-8) init
    by (simp add: encode_def make_packet_def to_bytes_def bytes_def)
  have dec: "decode [c, d1, d0, de] = Inr (s, sub, ist, d1, d0, de)"
    using init c(4) by (simp add: decode_def from_bytes_def)
  from enc dec c(1,4) show ?thesis by simp
qed

text \<open>The packet MAZE:SS:1 with the colour byte 16, which the module itself prints.\<close>

theorem encode_decode_roundtrip_witness:
  "(0::int) \<le> 1 \<and> (1::int) \<le> 15 \<and> (0::int) \<le> 16 \<and> (16::int) \<le> 255 \<and>
   encode MAZE SS 1 0 16 0 = Inr [177, 0, 16, 0] \<and>
   decode [177, 0, 16, 0] = Inr (MAZE, SS, 1, 0, 16, 0) \<and>
   create_control_byte MAZE SS 1 = Inr 177 \<and>
   parse_control_byte 177 = Inr (MAZE, SS, 1)"
proof -
  have enc: "encode MAZE SS 1 0 16 0 = Inr [177, 0, 16, 0]"
    by (simp add: encode_def make_packet_def create_control_byte_def SCSPacket_init_def
        to_bytes_def bytes_def)
  have ccb: "create_control_byte MAZE SS 1 = Inr 177"
    by (simp add: create_control_byte_def)
  show ?thesis
    using encode_decode_roundtrip [of 1 0 16 0 MAZE SS] enc ccb by simp
qed

section \<open>Colour bytes\<close>

text \<open>
  Claim C2. The claim is that decoding an encoded triple gives the triple back for
  all five colours. The module's own table of patterns says that a BLACK centre
  sensor encodes as 32; the encoder masks each colour to two bits, so the pattern is
  0, the byte of three WHITE sensors, and it decodes to three WHITE sensors.
\<close>

theorem black_center_encodes_as_white:
  "encode_color_byte WHITE BLACK WHITE = 0 \<and>
   encode_color_byte WHITE BLACK WHITE \<noteq> 32 \<and>
   decode_color_byte (encode_color_byte WHITE BLACK WHITE) = (WHITE, WHITE, WHITE) \<and>
   COLOR_S2_BLACK = COLOR_ALL_WHITE"
  by (simp add: encode_color_byte_def decode_color_byte_def dict_get_def bits_to_color_def
      COLOR_S2_BLACK_def COLOR_ALL_WHITE_def)

section \<open>The transition validator\<close>

text \<open>
  Claim C3. \<open>is_valid_transition\<close> is true exactly for the entries of the table
  whose conditions are all recorded as true: IDLE to CAL with \<open>touch_sensor\<close>, CAL to
  MAZE with \<open>ss_eoc\<close> and \<open>mdps_eoc\<close>, MAZE to SOS and SOS to MAZE with
  \<open>pure_tone\<close>, MAZE to IDLE with \<open>end_of_maze\<close>. For every other pair of states it
  is false whatever the conditions are. The function returns a truth value and
  nothing else: no state is part of its result.
\<close>

theorem transition_table:
  "is_valid_transition f t c =
     ((f = IDLE \<and> t = CAL \<and> c ''touch_sensor'' = Some True) \<or>
      (f = CAL \<and> t = MAZE \<and> c ''ss_eoc'' = Some True \<and> c ''mdps_eoc'' = Some True) \<or>
      (f = MAZE \<and> t = SOS \<and> c ''pure_tone'' = Some True) \<or>
      (f = SOS \<and> t = MAZE \<and> c ''pure_tone'' = Some True) \<or>
      (f = MAZE \<and> t = IDLE \<and> c ''end_of_maze'' = Some True))"
  by (cases f; cases t)
    (simp_all add: is_valid_transition_def dict_get_def split: option.splits)

section \<open>Angle bands\<close>

text \<open>
  Claim C4. For a navigable line (the keys \<open>S2_RED\<close> and \<open>S2_GREEN\<close>) the angle 5
  is still a direct crossing (the straight band), 6 and 45 are an alignment, and 46
  is a major rotation (the steep band); the angle table lists 5 as straight, 6 and
  45 as alignment and 46 as steep.
\<close>

theorem angle_band_boundaries:
  "(k = ''S2_RED'' \<or> k = ''S2_GREEN'') \<longrightarrow>
   get_expected_behavior 5 k = Inr [Lit ''FORWARD - Direct crossing at '', Num 5, Deg] \<and>
   get_expected_behavior 6 k = Inr [Lit ''ALIGN - Incremental correction for '', Num 6, Deg] \<and>
   get_expected_behavior 45 k =
     Inr [Lit ''ALIGN - Incremental correction for '', Num 45, Deg] \<and>
   get_expected_behavior 46 k = Inr [Lit ''ROTATE - Major rotation for '', Num 46, Deg] \<and>
   (\<exists>xs. map_of angle_categories ''straight'' = Some xs \<and> 5 \<in> set xs) \<and>
   (\<exists>xs. map_of angle_categories ''alignment'' = Some xs \<and> 6 \<in> set xs \<and> 45 \<in> set xs) \<and>
   (\<exists>xs. map_of angle_categories ''steep'' = Some xs \<and> 46 \<in> set xs)"
proof
  assume key: "k = ''S2_RED'' \<or> k = ''S2_GREEN''"
  note band = navigable_behavior [OF key]
  have straight: "get_expected_behavior 5 k =
      Inr [Lit ''FORWARD - Direct crossing at '', Num 5, Deg]"
    by (simp add: band)
  have align: "get_expected_behavior 6 k =
      Inr [Lit ''ALIGN - Incremental correction for '', Num 6, Deg]"
    "get_expected_behavior 45 k =
      Inr [Lit ''ALIGN - Incremental correction for '', Num 45, Deg]"
    by (simp_all add: band)
  have steep: "get_expected_behavior 46 k =
      Inr [Lit ''ROTATE - Major rotation for '', Num 46, Deg]"
    by (simp add: band)
  have table: "map_of angle_categories ''straight'' = Some [0, 1, 2, 5]"
    "map_of angle_categories ''alignment'' = Some [6, 10, 20, 30, 45]"
    "map_of angle_categories ''steep'' = Some [46, 50, 60, 75, 90]"
    by (simp_all add: angle_categories_def)
  from straight align steep table
  show "get_expected_behavior 5 k = Inr [Lit ''FORWARD - Direct crossing at '', Num 5, Deg] \<and>
   get_expected_behavior 6 k = Inr [Lit ''ALIGN - Incremental correction for '', Num 6, Deg] \<and>
   get_expected_behavior 45 k =
     Inr [Lit ''ALIGN - Incremental correction for '', Num 45, Deg] \<and>
   get_expected_behavior 46 k = Inr [Lit ''ROTATE - Major rotation for '', Num 46, Deg] \<and>
   (\<exists>xs. map_of angle_categories ''straight'' = Some xs \<and> 5 \<in> set xs) \<and>
   (\<exists>xs. map_of angle_categories ''alignment'' = Some xs \<and> 6 \<in> set xs \<and> 45 \<in> set xs) \<and>
   (\<exists>xs. map_of angle_categories ''steep'' = Some xs \<and> 46 \<in> set xs)"
    by simp
qed

theorem angle_band_boundaries_witness:
  "get_expected_behavior 5 ''S2_GREEN'' =
     Inr [Lit ''FORWARD - Direct crossing at '', Num 5, Deg] \<and>
   get_expected_behavior 6 ''S2_GREEN'' =
     Inr [Lit ''ALIGN - Incremental correction for '', Num 6, Deg] \<and>
   get_expected_behavior 45 ''S2_GREEN'' =
     Inr [Lit ''ALIGN - Incremental correction for '', Num 45, Deg] \<and>
   get_expected_behavior 46 ''S2_GREEN'' =
     Inr [Lit ''ROTATE - Major rotation for '', Num 46, Deg]"
  using angle_band_boundaries [of "''S2_GREEN''"] by simp

section \<open>The end-of-maze pattern\<close>

text \<open>
  Claim C5. Whatever the angle, the expected behaviour for the all-RED key is the
  stop with the end-of-maze message, and so it is for every key of the colour table
  that carries the all-RED colour code. That code is 73, the byte of three RED
  sensors, and a colour packet with this byte is described as all RED, end of maze.
\<close>

theorem all_red_stops:
  "get_expected_behavior angle ''ALL_RED'' = Inr [Lit ''STOP - End-of-maze detected''] \<and>
   (\<forall>k d. map_of colors k = Some (COLOR_ALL_RED, d) \<longrightarrow>
      get_expected_behavior angle k = Inr [Lit ''STOP - End-of-maze detected'']) \<and>
   encode_color_byte RED RED RED = COLOR_ALL_RED \<and> COLOR_ALL_RED = 73 \<and>
   (dat0 p = COLOR_ALL_RED \<longrightarrow> decode_color_packet p = [Lit ''All RED (End-of-Maze)''])"
proof -
  have a: "get_expected_behavior angle ''ALL_RED'' = Inr [Lit ''STOP - End-of-maze detected'']"
    by (simp add: get_expected_behavior_def colors_def)
  have b: "get_expected_behavior angle k = Inr [Lit ''STOP - End-of-maze detected'']"
    if "map_of colors k = Some (COLOR_ALL_RED, d)" for k d
  proof -
    from that have "k = ''ALL_RED''"
      by (simp add: all_red_key COLOR_ALL_RED_def)
    with a show ?thesis by simp
  qed
  have c: "encode_color_byte RED RED RED = COLOR_ALL_RED"
    by (simp add: encode_color_byte_def COLOR_ALL_RED_def)
  have d: "decode_color_packet p = [Lit ''All RED (End-of-Maze)'']" if "dat0 p = COLOR_ALL_RED"
    using that by (simp add: decode_color_packet_def COLOR_ALL_RED_def)
  from a b c d show ?thesis by (simp add: COLOR_ALL_RED_def)
qed

theorem all_red_stops_witness:
  "map_of colors ''ALL_RED'' = Some (COLOR_ALL_RED, ''All RED (end-of-maze)'') \<and>
   get_expected_behavior 90 ''ALL_RED'' = Inr [Lit ''STOP - End-of-maze detected''] \<and>
   dat0 \<lparr>control = 241, dat1 = 0, dat0 = 73, dec = 0\<rparr> = COLOR_ALL_RED \<and>
   decode_color_packet \<lparr>control = 241, dat1 = 0, dat0 = 73, dec = 0\<rparr> =
     [Lit ''All RED (End-of-Maze)'']"
proof -
  have key: "map_of colors ''ALL_RED'' = Some (COLOR_ALL_RED, ''All RED (end-of-maze)'')"
    by (simp add: colors_def)
  show ?thesis
    using all_red_stops [of 90 "\<lparr>control = 241, dat1 = 0, dat0 = 73, dec = 0\<rparr>"] key
    by (simp add: COLOR_ALL_RED_def)
qed

section \<open>Range checks of the packet construction\<close>

text \<open>
  Claim C6. \<open>create_control_byte\<close> raises its range error exactly when the
  instruction code is outside 0..15, and the packet constructor raises its range
  error exactly when one of control, dat1, dat0, dec is outside 0..255. Building a
  packet from a state, a subsystem, an instruction code and three data bytes
  therefore fails exactly when the instruction code or a data byte is out of range.
  When nothing is out of range the packet is built, and it holds the instruction
  code and the bytes as they were given.
\<close>

theorem construction_range_errors:
  "((\<exists>msg. create_control_byte s sub ist = Inl (ValueError msg)) = (ist < 0 \<or> 15 < ist)) \<and>
   ((\<exists>c. create_control_byte s sub ist = Inr c \<and> c AND 15 = ist) = (0 \<le> ist \<and> ist \<le> 15)) \<and>
   ((\<exists>msg. SCSPacket_init c d1 d0 de = Inl (ValueError msg)) =
      (c < 0 \<or> 255 < c \<or> d1 < 0 \<or> 255 < d1 \<or> d0 < 0 \<or> 255 < d0 \<or> de < 0 \<or> 255 < de)) \<and>
   ((SCSPacket_init c d1 d0 de = Inr p) =
      (0 \<le> c \<and> c \<le> 255 \<and> 0 \<le> d1 \<and> d1 \<le> 255 \<and> 0 \<le> d0 \<and> d0 \<le> 255 \<and>
       0 \<le> de \<and> de \<le> 255 \<and> p = \<lparr>control = c, dat1 = d1, dat0 = d0, dec = de\<rparr>)) \<and>
   ((\<exists>msg. make_packet s sub ist d1 d0 de = Inl (ValueError msg)) =
      (ist < 0 \<or> 15 < ist \<or> d1 < 0 \<or> 255 < d1 \<or> d0 < 0 \<or> 255 < d0 \<or> de < 0 \<or> 255 < de)) \<and>
   ((\<exists>q. make_packet s sub ist d1 d0 de = Inr q \<and> get_ist q = ist \<and>
          dat1 q = d1 \<and> dat0 q = d0 \<and> dec q = de) =
      (0 \<le> ist \<and> ist \<le> 15 \<and> 0 \<le> d1 \<and> d1 \<le> 255 \<and> 0 \<le> d0 \<and> d0 \<le> 255 \<and>
       0 \<le> de \<and> de \<le> 255))"
proof -
  have ccb_err:
    "(\<exists>msg. create_control_byte s sub ist = Inl (ValueError msg)) = (ist < 0 \<or> 15 < ist)"
    by (auto simp add: create_control_byte_def)
  have ccb_ok:
    "(\<exists>c. create_control_byte s sub ist = Inr c \<and> c AND 15 = ist) = (0 \<le> ist \<and> ist \<le> 15)"
  proof
    assume "\<exists>c. create_control_byte s sub ist = Inr c \<and> c AND 15 = ist"
    then show "0 \<le> ist \<and> ist \<le> 15"
      by (auto simp add: create_control_byte_def split: if_splits)
  next
    assume "0 \<le> ist \<and> ist \<le> 15"
    with control_byte_parse [of ist s sub]
    show "\<exists>c. create_control_byte s sub ist = Inr c \<and> c AND 15 = ist"
      by blast
  qed
  have init_err: "(\<exists>msg. SCSPacket_init c d1 d0 de = Inl (ValueError msg)) =
      (c < 0 \<or> 255 < c \<or> d1 < 0 \<or> 255 < d1 \<or> d0 < 0 \<or> 255 < d0 \<or> de < 0 \<or> 255 < de)"
    by (auto simp add: SCSPacket_init_cases)
  have init_ok: "(SCSPacket_init c d1 d0 de = Inr p) =
      (0 \<le> c \<and> c \<le> 255 \<and> 0 \<le> d1 \<and> d1 \<le> 255 \<and> 0 \<le> d0 \<and> d0 \<le> 255 \<and>
       0 \<le> de \<and> de \<le> 255 \<and> p = \<lparr>control = c, dat1 = d1, dat0 = d0, dec = de\<rparr>)"
    by (auto simp add: SCSPacket_init_cases)
  have mk_err: "(\<exists>msg. make_packet s sub ist d1 d0 de = Inl (ValueError msg)) =
      (ist < 0 \<or> 15 < ist \<or> d1 < 0 \<or> 255 < d1 \<or> d0 < 0 \<or> 255 < d0 \<or> de < 0 \<or> 255 < de)"
  proof (cases "0 \<le> ist \<and> ist \<le> 15")
    case True
    with control_byte_parse [of ist s sub]
    obtain k where "create_control_byte s sub ist = Inr k" by blast
    with True show ?thesis
      by (auto simp add: make_packet_cases)
  next
    case False
    then show ?thesis by (auto simp add: make_packet_cases)
  qed
  have mk_ok: "(\<exists>q. make_packet s sub ist d1 d0 de = Inr q \<and> get_ist q = ist \<and>
          dat1 q = d1 \<and> dat0 q = d0 \<and> dec q = de) =
      (0 \<le> ist \<and> ist \<le> 15 \<and> 0 \<le> d1 \<and> d1 \<le> 255 \<and> 0 \<le> d0 \<and> d0 \<le> 255 \<and>
       0 \<le> de \<and> de \<le> 255)"
  proof (cases "0 \<le> ist \<and> ist \<le> 15")
    case True
    with control_byte_parse [of ist s sub]
    obtain k where "create_control_byte s sub ist = Inr k" "k AND 15 = ist" by blast
    with True show ?thesis
      by (auto simp add: make_packet_cases get_ist_def)
  next
    case False
    then show ?thesis by (auto simp add: make_packet_cases)
  qed
  from ccb_err ccb_ok init_err init_ok mk_err mk_ok show ?thesis by blast
qed

section \<open>Decoding the decision packet\<close>

text \<open>
  Claim C7. A decision packet of the navigation controller comes from the
  subsystem SNC with instruction code 3. For such a packet with \<open>dec\<close> 2 or 3 whose
  rotation, \<open>dat1\<close> shifted left by eight bits or-ed with \<open>dat0\<close>, is at most 10,
  both decoders report the steering correction and no named rotation. A rotation
  of exactly 180 is reported as the half turn to the left for \<open>dec\<close> 2 and to the
  right for \<open>dec\<close> 3, and a rotation of exactly 360 with \<open>dec\<close> 2 as the full turn
  to the left.
\<close>

theorem steering_correction_decoding:
  assumes "get_subsystem p = Inr SNC" and "get_ist p = 3"
    and "rotation = push_bit 8 (dat1 p) OR dat0 p"
  shows "((dec p = 2 \<or> dec p = 3) \<and> rotation \<le> 10 \<longrightarrow>
           (\<exists>desc. decode_navcon_response p = Inr (ACT_STEERING_CORRECTION, desc)) \<and>
           (\<exists>desc. SimpleTester_decode p = (STEER, desc))) \<and>
         (dec p = 2 \<and> rotation = 180 \<longrightarrow>
           (\<exists>desc. decode_navcon_response p = Inr (ACT_TURN_180_LEFT, desc)) \<and>
           (\<exists>desc. SimpleTester_decode p = (L180, desc))) \<and>
         (dec p = 3 \<and> rotation = 180 \<longrightarrow>
           (\<exists>desc. decode_navcon_response p = Inr (ACT_TURN_180_RIGHT, desc)) \<and>
           (\<exists>desc. SimpleTester_decode p = (R180, desc))) \<and>
         (dec p = 2 \<and> rotation = 360 \<longrightarrow>
           (\<exists>desc. decode_navcon_response p = Inr (ACT_TURN_360_LEFT, desc)) \<and>
           (\<exists>desc. SimpleTester_decode p = (L360, desc)))"
  using assms
  by (auto simp add: decode_navcon_response_def SimpleTester_decode_def Let_def)

text \<open>MAZE:SNC:3 packets: five degrees to the left, and the half turn to the right.\<close>

theorem steering_correction_decoding_witness:
  "get_subsystem \<lparr>control = 147, dat1 = 0, dat0 = 5, dec = 2\<rparr> = Inr SNC \<and>
   get_ist \<lparr>control = 147, dat1 = 0, dat0 = 5, dec = 2\<rparr> = 3 \<and>
   (5::int) = push_bit 8 0 OR 5 \<and> (5::int) \<le> 10 \<and>
   (\<exists>desc. decode_navcon_response \<lparr>control = 147, dat1 = 0, dat0 = 5, dec = 2\<rparr> =
      Inr (ACT_STEERING_CORRECTION, desc)) \<and>
   (\<exists>desc. SimpleTester_decode \<lparr>control = 147, dat1 = 0, dat0 = 5, dec = 2\<rparr> =
      (STEER, desc))"
proof -
  have sub: "get_subsystem \<lparr>control = 147, dat1 = 0, dat0 = 5, dec = 2\<rparr> = Inr SNC"
    by (simp add: get_subsystem_def SubsystemID_of_def)
  have ist: "get_ist \<lparr>control = 147, dat1 = 0, dat0 = 5, dec = 2\<rparr> = 3"
    by (simp add: get_ist_def)
  show ?thesis
    using steering_correction_decoding [OF sub ist, of 5] sub ist by simp
qed

section \<open>Negative angles\<close>



section \<open>A single tone\<close>

text \<open>
  Claim C9. Started in any system state and waiting for a first tone, the validator
  that is given one tone event, of any duration, accepts nothing and leaves the
  system state as it was. The same holds when a second tone follows that ends more
  than 2000 ms after the first one ended.
\<close>

theorem single_tone_never_accepts:
  "accepted (run_tones (tone_start s) [ev]) = 0 \<and>
   system (run_tones (tone_start s) [ev]) = s \<and>
   (tone_end ev + 2000 < tone_end late \<longrightarrow>
      accepted (run_tones (tone_start s) [ev, late]) = 0 \<and>
      system (run_tones (tone_start s) [ev, late]) = s)"
proof -
  have fresh: "expired (tone_start s) ev"
    by (simp add: expired_def tone_start_def)
  have start: "accepted (tone_start s) = 0" "system (tone_start s) = s"
    by (simp_all add: tone_start_def)
  have one: "accepted (run_tones (tone_start s) [ev]) = 0 \<and>
             system (run_tones (tone_start s) [ev]) = s"
    using isolated_tones_never_accept [of ev "[]" "tone_start s"] fresh start by simp
  have two: "accepted (run_tones (tone_start s) [ev, late]) = 0 \<and>
             system (run_tones (tone_start s) [ev, late]) = s"
    if "tone_end ev + 2000 < tone_end late"
    using isolated_tones_never_accept [of ev "[late]" "tone_start s"] fresh start that
    by simp
  from one two show ?thesis by blast
qed

text \<open>
  A tone of 800 ms that ends at 800 ms, and a tone of 800 ms that starts at 3300 ms,
  as the timeout scenario of the test window plays them.
\<close>

theorem single_tone_never_accepts_witness:
  "tone_end \<lparr>start_time = 0, duration_ms = 800\<rparr> + 2000 <
     tone_end \<lparr>start_time = 3300, duration_ms = 800\<rparr> \<and>
   accepted (run_tones (tone_start MAZE)
     [\<lparr>start_time = 0, duration_ms = 800\<rparr>, \<lparr>start_time = 3300, duration_ms = 800\<rparr>]) = 0 \<and>
   system (run_tones (tone_start MAZE)
     [\<lparr>start_time = 0, duration_ms = 800\<rparr>, \<lparr>start_time = 3300, duration_ms = 800\<rparr>]) = MAZE"
proof -
  have late: "tone_end \<lparr>start_time = 0, duration_ms = 800\<rparr> + 2000 <
     tone_end \<lparr>start_time = 3300, duration_ms = 800\<rparr>"
    by (simp add: tone_end_def)
  show ?thesis
    using single_tone_never_accepts
      [of MAZE "\<lparr>start_time = 0, duration_ms = 800\<rparr>" "\<lparr>start_time = 3300, duration_ms = 800\<rparr>"]
      late
    by simp
qed

section \<open>Two-bit colour fields\<close>

text \<open>
  Claim C10. For every colour byte, and indeed for every integer, each of the
  three colours that \<open>decode_color_byte\<close> returns is WHITE, RED, GREEN or BLUE, never
  BLACK. Decoding an encoded triple returns each colour as it was, except that BLACK
  comes back as WHITE at the position where it stood.
\<close>

theorem decode_color_byte_never_black:
  "(case decode_color_byte b of
      (c1, c2, c3) \<Rightarrow>
        c1 \<in> {WHITE, RED, GREEN, BLUE} \<and> c2 \<in> {WHITE, RED, GREEN, BLUE} \<and>
        c3 \<in> {WHITE, RED, GREEN, BLUE} \<and> c1 \<noteq> BLACK \<and> c2 \<noteq> BLACK \<and> c3 \<noteq> BLACK) \<and>
   decode_color_byte (encode_color_byte s1 s2 s3) =
     (if s1 = BLACK then WHITE else s1,
      if s2 = BLACK then WHITE else s2,
      if s3 = BLACK then WHITE else s3)"
proof -
  have fields: "case decode_color_byte b of
      (c1, c2, c3) \<Rightarrow>
        c1 \<in> {WHITE, RED, GREEN, BLUE} \<and> c2 \<in> {WHITE, RED, GREEN, BLUE} \<and>
        c3 \<in> {WHITE, RED, GREEN, BLUE} \<and> c1 \<noteq> BLACK \<and> c2 \<noteq> BLACK \<and> c3 \<noteq> BLACK"
    using two_bit_color [of b] two_bit_color [of "drop_bit 3 b"]
      two_bit_color [of "drop_bit 6 b"]
    by (auto simp add: decode_color_byte_def Let_def)
  have trip: "decode_color_byte (encode_color_byte s1 s2 s3) =
     (if s1 = BLACK then WHITE else s1,
      if s2 = BLACK then WHITE else s2,
      if s3 = BLACK then WHITE else s3)"
    by (cases s1; cases s2; cases s3)
      (simp_all add: decode_color_byte_def encode_color_byte_def dict_get_def
         bits_to_color_def)
  from fields trip show ?thesis by simp
qed

end
